theory Spec2Isabelle
  imports Main "HOL-Library.Multiset" "HOL-Library.Product_Lexorder"
begin

section \<open>Request bodies: JSON values as Python sees them\<close>

text \<open>
  \<^verbatim>\<open>request.get_json()\<close> hands the handlers a parsed JSON value. Numbers with a
  fraction are left out (no floating point here); texts are ASCII; a JSON object is its
  list of key/value pairs, looked up by key as the Python dict is.
\<close>

datatype json =
    JNull
  | JBool bool
  | JInt int
  | JStr string
  | JList "json list"
  | JObj "(string \<times> json) list"

text \<open>Python truthiness, as \<^verbatim>\<open>not x\<close> and \<^verbatim>\<open>x or y\<close> read it.\<close>

fun truthy :: "json \<Rightarrow> bool" where
  "truthy JNull = False"
| "truthy (JBool b) = b"
| "truthy (JInt n) = (n \<noteq> 0)"
| "truthy (JStr s) = (s \<noteq> [])"
| "truthy (JList xs) = (xs \<noteq> [])"
| "truthy (JObj kvs) = (kvs \<noteq> [])"

text \<open>\<^verbatim>\<open>data.get(k)\<close>: the value, or None.\<close>

definition dict_get :: "(string \<times> json) list \<Rightarrow> string \<Rightarrow> json option" where
  "dict_get kvs k = map_of kvs k"

text \<open>\<^verbatim>\<open>data.get(k, default)\<close>.\<close>

definition dict_get_default :: "(string \<times> json) list \<Rightarrow> string \<Rightarrow> json \<Rightarrow> json" where
  "dict_get_default kvs k dflt = (case map_of kvs k of None \<Rightarrow> dflt | Some v \<Rightarrow> v)"

section \<open>Responses\<close>

text \<open>
  A handler returns \<^verbatim>\<open>jsonify(...)\<close> with a status; a return without a status is 200.
  The rows of a listing carry the texts the handler renders.
\<close>

record appointment_view =
  v_id :: int
  v_patient_name :: json
  v_patient_email :: json
  v_patient_phone :: json
  v_doctor_id :: int
  v_doctor_name :: string
  v_specialization :: string
  v_appointment_date :: string
  v_appointment_time :: string
  v_reason :: json
  v_status :: string
  v_notes :: json
  v_created_at :: string

record history_view =
  h_user_message :: string
  h_bot_response :: string
  h_timestamp :: string

datatype body =
    Error string
  | Booked string int string json json
  | Appointments "appointment_view list"
  | Message string
  | ChatReply string json string
  | History "history_view list"

type_synonym response = "body \<times> nat"

definition internal_server_error :: response where
  "internal_server_error = (Error ''Internal server error'', 500)"

section \<open>Dates, times and \<^verbatim>\<open>datetime.strptime\<close>\<close>

text \<open>
  A date is (year, month, day), a time of day (hour, minute), a datetime a date with
  (hour, minute, second, microsecond). Tuples are compared lexicographically, which is
  the order of Python's naive \<^verbatim>\<open>datetime\<close> values.
\<close>

type_synonym date = "nat \<times> nat \<times> nat"
type_synonym time_of_day = "nat \<times> nat"
type_synonym datetime = "date \<times> nat \<times> nat \<times> nat \<times> nat"

definition datetime_combine :: "date \<Rightarrow> time_of_day \<Rightarrow> datetime" where
  "datetime_combine d t = (d, fst t, snd t, 0, 0)"

definition digit_val :: "char \<Rightarrow> nat option" where
  "digit_val c = map_of
     [(CHR ''0'', 0), (CHR ''1'', 1), (CHR ''2'', 2), (CHR ''3'', 3), (CHR ''4'', 4),
      (CHR ''5'', 5), (CHR ''6'', 6), (CHR ''7'', 7), (CHR ''8'', 8), (CHR ''9'', 9)] c"

text \<open>
  The library's patterns for the directives used here, each matched against the whole
  field: \<^verbatim>\<open>%Y\<close> is four digits, \<^verbatim>\<open>%m\<close> is 1[0-2]|0[1-9]|[1-9], \<^verbatim>\<open>%d\<close> is
  3[01]|[12]\d|0[1-9]|[1-9]| [1-9], \<^verbatim>\<open>%H\<close> is 2[0-3]|[01]\d|\d and \<^verbatim>\<open>%M\<close> is
  [0-5]\d|\d.
\<close>

definition year_of :: "string \<Rightarrow> nat option" where
  "year_of s = (case map digit_val s of
      [Some a, Some b, Some c, Some d] \<Rightarrow> Some (1000 * a + 100 * b + 10 * c + d)
    | _ \<Rightarrow> None)"

definition month_of :: "string \<Rightarrow> nat option" where
  "month_of s = (case map digit_val s of
      [Some a] \<Rightarrow> if 1 \<le> a then Some a else None
    | [Some a, Some b] \<Rightarrow> if 1 \<le> 10 * a + b \<and> 10 * a + b \<le> 12 then Some (10 * a + b) else None
    | _ \<Rightarrow> None)"

definition day_of :: "string \<Rightarrow> nat option" where
  "day_of s = (case s of
      [c] \<Rightarrow> (case digit_val c of Some a \<Rightarrow> if 1 \<le> a then Some a else None | None \<Rightarrow> None)
    | [c1, c2] \<Rightarrow>
        (case (if c1 = CHR '' '' then Some 0 else digit_val c1, digit_val c2) of
           (Some a, Some b) \<Rightarrow>
             if 1 \<le> 10 * a + b \<and> 10 * a + b \<le> 31 then Some (10 * a + b) else None
         | _ \<Rightarrow> None)
    | _ \<Rightarrow> None)"

definition hour_of :: "string \<Rightarrow> nat option" where
  "hour_of s = (case map digit_val s of
      [Some a] \<Rightarrow> Some a
    | [Some a, Some b] \<Rightarrow> if 10 * a + b \<le> 23 then Some (10 * a + b) else None
    | _ \<Rightarrow> None)"

definition minute_of :: "string \<Rightarrow> nat option" where
  "minute_of s = (case map digit_val s of
      [Some a] \<Rightarrow> Some a
    | [Some a, Some b] \<Rightarrow> if 10 * a + b \<le> 59 then Some (10 * a + b) else None
    | _ \<Rightarrow> None)"

definition is_leap :: "nat \<Rightarrow> bool" where
  "is_leap y = (y mod 4 = 0 \<and> (y mod 100 \<noteq> 0 \<or> y mod 400 = 0))"

definition days_in_month :: "nat \<Rightarrow> nat \<Rightarrow> nat" where
  "days_in_month y m =
     (if m = 2 then (if is_leap y then 29 else 28)
      else if m = 4 \<or> m = 6 \<or> m = 9 \<or> m = 11 then 30 else 31)"

text \<open>\<^verbatim>\<open>date(year, month, day)\<close> raises ValueError outside these bounds.\<close>

definition valid_date :: "nat \<Rightarrow> nat \<Rightarrow> nat \<Rightarrow> bool" where
  "valid_date y m d =
     (1 \<le> y \<and> y \<le> 9999 \<and> 1 \<le> m \<and> m \<le> 12 \<and> 1 \<le> d \<and> d \<le> days_in_month y m)"

text \<open>
  \<^verbatim>\<open>datetime.strptime(s, '%Y-%m-%d').date()\<close> on a text: None is ValueError. The month
  and day patterns hold no \<^verbatim>\<open>-\<close>, so the month is what stands before the next one.
\<close>

definition strptime_date :: "string \<Rightarrow> date option" where
  "strptime_date s =
     (case (year_of (take 4 s), drop 4 s) of
        (Some y, c # rest) \<Rightarrow>
          if c \<noteq> CHR ''-'' then None
          else (case (month_of (takeWhile (\<lambda>x. x \<noteq> CHR ''-'') rest),
                      dropWhile (\<lambda>x. x \<noteq> CHR ''-'') rest) of
                  (Some m, _ # ds) \<Rightarrow>
                    (case day_of ds of
                       Some d \<Rightarrow> if valid_date y m d then Some (y, m, d) else None
                     | None \<Rightarrow> None)
                | _ \<Rightarrow> None)
      | _ \<Rightarrow> None)"

text \<open>\<^verbatim>\<open>datetime.strptime(s, '%H:%M').time()\<close> on a text.\<close>

definition strptime_time :: "string \<Rightarrow> time_of_day option" where
  "strptime_time s =
     (case (hour_of (takeWhile (\<lambda>x. x \<noteq> CHR '':'') s),
            dropWhile (\<lambda>x. x \<noteq> CHR '':'') s) of
        (Some h, _ # ms) \<Rightarrow> (case minute_of ms of Some m \<Rightarrow> Some (h, m) | None \<Rightarrow> None)
      | _ \<Rightarrow> None)"

text \<open>
  What a call of \<^verbatim>\<open>strptime\<close> on a request value does: a value that is not a text
  raises TypeError, a text that does not match raises ValueError.
\<close>

datatype 'a parsed = TypeError | ValueError | Parsed 'a

definition strptime_arg :: "(string \<Rightarrow> 'a option) \<Rightarrow> json \<Rightarrow> 'a parsed" where
  "strptime_arg p v =
     (case v of
        JStr s \<Rightarrow> (case p s of None \<Rightarrow> ValueError | Some x \<Rightarrow> Parsed x)
      | _ \<Rightarrow> TypeError)"

text \<open>\<^verbatim>\<open>date.isoformat()\<close>, \<^verbatim>\<open>strftime('%H:%M')\<close> and \<^verbatim>\<open>datetime.isoformat()\<close>.\<close>

definition digit_char :: "nat \<Rightarrow> char" where
  "digit_char n = ''0123456789'' ! (n mod 10)"

definition pad2 :: "nat \<Rightarrow> string" where
  "pad2 n = [digit_char (n div 10), digit_char n]"

definition pad4 :: "nat \<Rightarrow> string" where
  "pad4 n = pad2 (n div 100) @ pad2 n"

definition pad6 :: "nat \<Rightarrow> string" where
  "pad6 n = pad2 (n div 10000) @ pad4 n"

definition date_isoformat :: "date \<Rightarrow> string" where
  "date_isoformat d =
     (case d of (y, m, dd) \<Rightarrow> pad4 y @ ''-'' @ pad2 m @ ''-'' @ pad2 dd)"

definition strftime_HM :: "time_of_day \<Rightarrow> string" where
  "strftime_HM t = pad2 (fst t) @ '':'' @ pad2 (snd t)"

definition datetime_isoformat :: "datetime \<Rightarrow> string" where
  "datetime_isoformat dt =
     (case dt of (d, h, mi, s, us) \<Rightarrow>
        date_isoformat d @ ''T'' @ pad2 h @ '':'' @ pad2 mi @ '':'' @ pad2 s
          @ (if us = 0 then [] else ''.'' @ pad6 us))"

section \<open>The storage gateway\<close>

text \<open>
  The tables, as the handlers' statements read and write them. Text columns hold the
  parameter the handler passed; the identifier columns are integers, and the date, time
  and timestamp columns hold calendar values (never null: the handlers call
  \<^verbatim>\<open>isoformat\<close> and \<^verbatim>\<open>strftime\<close> on them).
\<close>

record doctor =
  d_id :: int
  d_name :: string
  d_specialization :: string
  d_is_verified :: bool

record appointment =
  a_id :: int
  a_patient_name :: json
  a_patient_email :: json
  a_patient_phone :: json
  a_doctor_id :: int
  a_appointment_date :: date
  a_appointment_time :: time_of_day
  a_reason :: json
  a_status :: string
  a_notes :: json
  a_created_at :: datetime
  a_updated_at :: datetime

record chat_turn =
  c_session_id :: json
  c_user_message :: string
  c_bot_response :: string
  c_created_at :: datetime

record db =
  doctors :: "doctor list"
  appointments :: "appointment list"
  chat_history :: "chat_turn list"
  appointments_id_seq :: int

text \<open>
  The calls a handler makes on the gateway. Each may raise (an outage, or a parameter
  the driver or the engine rejects); which ones do is the environment's choice.
\<close>

datatype statement =
    SelectDoctor
  | SelectConflict
  | InsertAppointment
  | SelectAppointments
  | UpdateAppointment
  | InsertChat
  | SelectHistory

datatype db_call = Connect | Cursor | Execute statement | Commit | Rollback | Close

datatype generated = GenerateRaises | Generated "string option"

text \<open>
  What a handler reads from outside the request and the tables: the clock of
  \<^verbatim>\<open>datetime.now()\<close>, the engine's \<^verbatim>\<open>CURRENT_TIMESTAMP\<close>, the gateway calls that
  raise, the value of \<^verbatim>\<open>str(uuid.uuid4())\<close> and the language model's answer to a
  message (the instruction and the sampling parameters are constants of the call).
\<close>

record env =
  now :: datetime
  current_timestamp :: datetime
  faults :: "db_call \<Rightarrow> bool"
  uuid4 :: string
  generate_content :: "string \<Rightarrow> generated"

definition no_faults :: "db_call \<Rightarrow> bool" where
  "no_faults c = False"

text \<open>
  An integer column compared with, or assigned from, a request value: an integer is
  itself, a text is read as a decimal literal (blanks around it, an optional sign), and
  anything else makes the statement raise (None).
\<close>

definition pg_isspace :: "char \<Rightarrow> bool" where
  "pg_isspace c = (c \<in> set [CHR '' '', CHR 0x09, CHR 0x0A, CHR 0x0B, CHR 0x0C, CHR 0x0D])"

fun decimal :: "nat \<Rightarrow> string \<Rightarrow> nat option" where
  "decimal acc [] = Some acc"
| "decimal acc (c # cs) =
     (case digit_val c of None \<Rightarrow> None | Some d \<Rightarrow> decimal (10 * acc + d) cs)"

definition int_of_text :: "string \<Rightarrow> int option" where
  "int_of_text s =
     (case rev (dropWhile pg_isspace (rev (dropWhile pg_isspace s))) of
        [] \<Rightarrow> None
      | c # cs \<Rightarrow>
          if c = CHR ''-'' then (if cs = [] then None else map_option (\<lambda>n. - int n) (decimal 0 cs))
          else if c = CHR ''+'' then (if cs = [] then None else map_option int (decimal 0 cs))
          else map_option int (decimal 0 (c # cs)))"

definition sql_int :: "json \<Rightarrow> int option" where
  "sql_int v = (case v of JInt n \<Rightarrow> Some n | JStr s \<Rightarrow> int_of_text s | _ \<Rightarrow> None)"

text \<open>An appointment blocks its slot unless it is cancelled or completed.\<close>

definition active :: "appointment \<Rightarrow> bool" where
  "active a = (a_status a \<noteq> ''cancelled'' \<and> a_status a \<noteq> ''completed'')"

definition in_slot :: "int \<Rightarrow> date \<Rightarrow> time_of_day \<Rightarrow> appointment \<Rightarrow> bool" where
  "in_slot did d t a =
     (a_doctor_id a = did \<and> a_appointment_date a = d \<and> a_appointment_time a = t)"

text \<open>
  \<^verbatim>\<open>SELECT id, name FROM doctors WHERE id = %s AND is_verified = TRUE\<close>, then
  \<^verbatim>\<open>fetchone()\<close>.
\<close>

definition select_doctor :: "db \<Rightarrow> int \<Rightarrow> doctor option" where
  "select_doctor s did = find (\<lambda>d. d_id d = did \<and> d_is_verified d) (doctors s)"

text \<open>
  \<^verbatim>\<open>SELECT id FROM appointments WHERE doctor_id = %s AND appointment_date = %s AND
  appointment_time = %s AND status NOT IN ('cancelled', 'completed')\<close>, then
  \<^verbatim>\<open>fetchone()\<close>. The engine reads the validated date and time texts as the calendar
  values \<^verbatim>\<open>strptime\<close> read.
\<close>

definition select_conflict :: "db \<Rightarrow> int \<Rightarrow> date \<Rightarrow> time_of_day \<Rightarrow> appointment option" where
  "select_conflict s did d t = find (\<lambda>a. in_slot did d t a \<and> active a) (appointments s)"

section \<open>Booking\<close>

record booking =
  b_patient_name :: json
  b_patient_email :: json
  b_patient_phone :: json
  b_doctor_id :: json
  b_appointment_date :: json
  b_appointment_time :: json
  b_reason :: json
  b_date_obj :: date
  b_time_obj :: time_of_day

definition required_fields :: "string list" where
  "required_fields =
     [''patient_name'', ''patient_email'', ''doctor_id'', ''appointment_date'', ''appointment_time'']"

text \<open>\<^verbatim>\<open>not data.get(field)\<close>.\<close>

definition is_missing :: "(string \<times> json) list \<Rightarrow> string \<Rightarrow> bool" where
  "is_missing kvs field = (case dict_get kvs field of None \<Rightarrow> True | Some v \<Rightarrow> \<not> truthy v)"

definition not_future :: response where
  "not_future = (Error ''Appointment must be scheduled for a future date and time'', 400)"

definition invalid_format :: response where
  "invalid_format = (Error ''Invalid date or time format'', 400)"

text \<open>
  \<^verbatim>\<open>book_appointment\<close> up to \<^verbatim>\<open>conn = get_db_connection()\<close>: the response it
  returns early (Inl), or the values it goes on with. A body that is no object has no
  \<^verbatim>\<open>get\<close>, and a date or time that is no text makes \<^verbatim>\<open>strptime\<close> raise TypeError:
  both reach the outer handler.
\<close>

definition validate_booking :: "datetime \<Rightarrow> json \<Rightarrow> response + booking" where
  "validate_booking clock data =
     (case data of
        JObj kvs \<Rightarrow>
          (case find (is_missing kvs) required_fields of
             Some field \<Rightarrow> Inl (Error (field @ '' is required''), 400)
           | None \<Rightarrow>
               (case (dict_get kvs ''patient_name'', dict_get kvs ''patient_email'',
                      dict_get kvs ''doctor_id'', dict_get kvs ''appointment_date'',
                      dict_get kvs ''appointment_time'') of
                  (Some pn, Some pe, Some did, Some ad, Some atm) \<Rightarrow>
                    (case strptime_arg strptime_date ad of
                       TypeError \<Rightarrow> Inl internal_server_error
                     | ValueError \<Rightarrow> Inl invalid_format
                     | Parsed d \<Rightarrow>
                         (case strptime_arg strptime_time atm of
                            TypeError \<Rightarrow> Inl internal_server_error
                          | ValueError \<Rightarrow> Inl invalid_format
                          | Parsed t \<Rightarrow>
                              if datetime_combine d t \<le> clock then Inl not_future
                              else Inr \<lparr>b_patient_name = pn, b_patient_email = pe,
                                        b_patient_phone = dict_get_default kvs ''patient_phone'' (JStr []),
                                        b_doctor_id = did, b_appointment_date = ad,
                                        b_appointment_time = atm,
                                        b_reason = dict_get_default kvs ''reason'' (JStr []),
                                        b_date_obj = d, b_time_obj = t\<rparr>))
                | _ \<Rightarrow> Inl internal_server_error))
      | _ \<Rightarrow> Inl internal_server_error)"

text \<open>
  \<^verbatim>\<open>finally: conn.close()\<close> on the way out with a response: a close that raises
  replaces it, and the outer handler answers.
\<close>

definition finally_close :: "env \<Rightarrow> response \<Rightarrow> response" where
  "finally_close e r = (if faults e Close then internal_server_error else r)"

text \<open>
  \<^verbatim>\<open>except Exception: conn.rollback(); ...; return error, 500\<close> followed by the
  \<^verbatim>\<open>finally\<close>: the response and the two gateway calls made. A rollback that raises
  leaves the clause for the outer handler, after the close.
\<close>

definition db_failure :: "env \<Rightarrow> string \<Rightarrow> response \<times> db_call list" where
  "db_failure e msg =
     (if faults e Rollback then internal_server_error else finally_close e (Error msg, 500),
      [Rollback, Close])"

text \<open>
  \<^verbatim>\<open>INSERT INTO appointments (...) VALUES (...) RETURNING id\<close>: the row gets the next
  identifier of the sequence; status, notes and the timestamps are the table's defaults.
\<close>

definition new_appointment :: "env \<Rightarrow> booking \<Rightarrow> int \<Rightarrow> int \<Rightarrow> appointment" where
  "new_appointment e b did new_id =
     \<lparr>a_id = new_id, a_patient_name = b_patient_name b, a_patient_email = b_patient_email b,
      a_patient_phone = b_patient_phone b, a_doctor_id = did,
      a_appointment_date = b_date_obj b, a_appointment_time = b_time_obj b,
      a_reason = b_reason b, a_status = ''pending'', a_notes = JNull,
      a_created_at = current_timestamp e, a_updated_at = current_timestamp e\<rparr>"

definition insert_appointment :: "db \<Rightarrow> appointment \<Rightarrow> db" where
  "insert_appointment s a =
     s\<lparr>appointments := appointments s @ [a], appointments_id_seq := a_id a\<rparr>"

definition book_failed :: "env \<Rightarrow> db \<Rightarrow> db_call list \<Rightarrow> response \<times> db \<times> db_call list" where
  "book_failed e s calls =
     (fst (db_failure e ''Failed to book appointment''), s,
      calls @ snd (db_failure e ''Failed to book appointment''))"

text \<open>
  \<^verbatim>\<open>book_appointment\<close> from \<^verbatim>\<open>conn = get_db_connection()\<close> on: the response, the
  tables afterwards and the gateway calls made, in order. What is not committed is not
  in the tables afterwards.
\<close>

definition book_storage :: "env \<Rightarrow> booking \<Rightarrow> db \<Rightarrow> response \<times> db \<times> db_call list" where
  "book_storage e b s =
     (if faults e Connect then (internal_server_error, s, [Connect])
      else if faults e Cursor then book_failed e s [Connect, Cursor]
      else
        (case (if faults e (Execute SelectDoctor) then None else sql_int (b_doctor_id b)) of
           None \<Rightarrow> book_failed e s [Connect, Cursor, Execute SelectDoctor]
         | Some did \<Rightarrow>
             (case select_doctor s did of
                None \<Rightarrow>
                  (finally_close e (Error ''Doctor not found or not verified'', 404), s,
                   [Connect, Cursor, Execute SelectDoctor, Close])
              | Some doc \<Rightarrow>
                  if faults e (Execute SelectConflict)
                  then book_failed e s [Connect, Cursor, Execute SelectDoctor, Execute SelectConflict]
                  else
                    (case select_conflict s did (b_date_obj b) (b_time_obj b) of
                       Some taken \<Rightarrow>
                         (finally_close e (Error ''This time slot is already booked'', 409), s,
                          [Connect, Cursor, Execute SelectDoctor, Execute SelectConflict, Close])
                     | None \<Rightarrow>
                         if faults e (Execute InsertAppointment)
                         then book_failed e s
                                [Connect, Cursor, Execute SelectDoctor, Execute SelectConflict,
                                 Execute InsertAppointment]
                         else if faults e Commit
                         then book_failed e s
                                [Connect, Cursor, Execute SelectDoctor, Execute SelectConflict,
                                 Execute InsertAppointment, Commit]
                         else
                           (finally_close e
                              (Booked ''Appointment booked successfully''
                                 (appointments_id_seq s + 1) (d_name doc)
                                 (b_appointment_date b) (b_appointment_time b), 200),
                            insert_appointment s
                              (new_appointment e b did (appointments_id_seq s + 1)),
                            [Connect, Cursor, Execute SelectDoctor, Execute SelectConflict,
                             Execute InsertAppointment, Commit, Close])))))"

definition book_appointment :: "env \<Rightarrow> json \<Rightarrow> db \<Rightarrow> response \<times> db \<times> db_call list" where
  "book_appointment e data s =
     (case validate_booking (now e) data of
        Inl r \<Rightarrow> (r, s, [])
      | Inr b \<Rightarrow> book_storage e b s)"

section \<open>Listing\<close>

text \<open>\<^verbatim>\<open>if x:\<close> on a query parameter: an absent and an empty one add no condition.\<close>

definition supplied :: "string option \<Rightarrow> string option" where
  "supplied x = (case x of None \<Rightarrow> None | Some t \<Rightarrow> if t = [] then None else Some t)"

text \<open>\<^verbatim>\<open>FROM appointments a JOIN doctors d ON a.doctor_id = d.id\<close>.\<close>

definition join_doctors :: "db \<Rightarrow> (appointment \<times> doctor) list" where
  "join_doctors s =
     concat (map (\<lambda>a. map (Pair a) (filter (\<lambda>d. a_doctor_id a = d_id d) (doctors s)))
                 (appointments s))"

definition matches :: "int option \<Rightarrow> string option \<Rightarrow> appointment \<Rightarrow> bool" where
  "matches did st a =
     ((case did of None \<Rightarrow> True | Some n \<Rightarrow> a_doctor_id a = n) \<and>
      (case st of None \<Rightarrow> True | Some t \<Rightarrow> a_status a = t))"

definition slot_key :: "appointment \<Rightarrow> date \<times> time_of_day" where
  "slot_key a = (a_appointment_date a, a_appointment_time a)"

text \<open>
  The query with its conditions and
  \<^verbatim>\<open>ORDER BY a.appointment_date DESC, a.appointment_time DESC\<close>; rows that tie come in
  one of the orders the engine may give.
\<close>

definition select_appointments ::
  "db \<Rightarrow> int option \<Rightarrow> string option \<Rightarrow> (appointment \<times> doctor) list" where
  "select_appointments s did st =
     rev (sort_key (\<lambda>r. slot_key (fst r)) (filter (\<lambda>r. matches did st (fst r)) (join_doctors s)))"

definition appointment_json :: "appointment \<times> doctor \<Rightarrow> appointment_view" where
  "appointment_json r =
     (case r of (a, d) \<Rightarrow>
        \<lparr>v_id = a_id a, v_patient_name = a_patient_name a, v_patient_email = a_patient_email a,
         v_patient_phone = a_patient_phone a, v_doctor_id = a_doctor_id a,
         v_doctor_name = d_name d, v_specialization = d_specialization d,
         v_appointment_date = date_isoformat (a_appointment_date a),
         v_appointment_time = strftime_HM (a_appointment_time a),
         v_reason = a_reason a, v_status = a_status a, v_notes = a_notes a,
         v_created_at = datetime_isoformat (a_created_at a)\<rparr>)"

definition list_failed :: response where
  "list_failed = (Error ''Failed to retrieve appointments'', 500)"

text \<open>
  \<^verbatim>\<open>get_appointments\<close>: the two query parameters are texts or absent. The only
  handler of exceptions is the outer one, and \<^verbatim>\<open>conn.close()\<close> is the statement after
  the \<^verbatim>\<open>with\<close> block.
\<close>

definition get_appointments ::
  "env \<Rightarrow> string option \<Rightarrow> string option \<Rightarrow> db \<Rightarrow> response \<times> db \<times> db_call list" where
  "get_appointments e doctor_id status s =
     (if faults e Connect then (list_failed, s, [Connect])
      else if faults e Cursor then (list_failed, s, [Connect, Cursor])
      else
        (case (if faults e (Execute SelectAppointments) then None
               else (case supplied doctor_id of
                       None \<Rightarrow> Some None
                     | Some t \<Rightarrow> map_option Some (int_of_text t))) of
           None \<Rightarrow> (list_failed, s, [Connect, Cursor, Execute SelectAppointments])
         | Some did \<Rightarrow>
             if faults e Close
             then (list_failed, s, [Connect, Cursor, Execute SelectAppointments, Close])
             else ((Appointments (map appointment_json (select_appointments s did (supplied status))),
                    200), s, [Connect, Cursor, Execute SelectAppointments, Close])))"

section \<open>Updating\<close>

definition valid_statuses :: "string list" where
  "valid_statuses = [''pending'', ''confirmed'', ''completed'', ''cancelled'']"

text \<open>
  \<^verbatim>\<open>UPDATE appointments SET status = %s, notes = %s, updated_at = CURRENT_TIMESTAMP
  WHERE id = %s RETURNING id\<close>.
\<close>

definition update_row :: "env \<Rightarrow> string \<Rightarrow> json \<Rightarrow> appointment \<Rightarrow> appointment" where
  "update_row e st notes a = a\<lparr>a_status := st, a_notes := notes, a_updated_at := current_timestamp e\<rparr>"

definition update_rows :: "env \<Rightarrow> int \<Rightarrow> string \<Rightarrow> json \<Rightarrow> db \<Rightarrow> db" where
  "update_rows e appointment_id st notes s =
     s\<lparr>appointments :=
         map (\<lambda>a. if a_id a = appointment_id then update_row e st notes a else a) (appointments s)\<rparr>"

definition update_failed :: "env \<Rightarrow> db \<Rightarrow> db_call list \<Rightarrow> response \<times> db \<times> db_call list" where
  "update_failed e s calls =
     (fst (db_failure e ''Failed to update appointment''), s,
      calls @ snd (db_failure e ''Failed to update appointment''))"

text \<open>\<^verbatim>\<open>update_appointment\<close> from \<^verbatim>\<open>conn = get_db_connection()\<close> on.\<close>

definition update_storage ::
  "env \<Rightarrow> int \<Rightarrow> string \<Rightarrow> json \<Rightarrow> db \<Rightarrow> response \<times> db \<times> db_call list" where
  "update_storage e appointment_id st notes s =
     (if faults e Connect then (internal_server_error, s, [Connect])
      else if faults e Cursor then update_failed e s [Connect, Cursor]
      else if faults e (Execute UpdateAppointment)
      then update_failed e s [Connect, Cursor, Execute UpdateAppointment]
      else if \<not> list_ex (\<lambda>a. a_id a = appointment_id) (appointments s)
      then (finally_close e (Error ''Appointment not found'', 404), s,
            [Connect, Cursor, Execute UpdateAppointment, Close])
      else if faults e Commit
      then update_failed e s [Connect, Cursor, Execute UpdateAppointment, Commit]
      else (finally_close e (Message ''Appointment updated successfully'', 200),
            update_rows e appointment_id st notes s,
            [Connect, Cursor, Execute UpdateAppointment, Commit, Close]))"

text \<open>
  \<^verbatim>\<open>update_appointment\<close>: the identifier comes from the path. \<^verbatim>\<open>status not in [...]\<close>
  holds for an absent status and for every value that is not one of the four texts.
\<close>

definition update_appointment ::
  "env \<Rightarrow> int \<Rightarrow> json \<Rightarrow> db \<Rightarrow> response \<times> db \<times> db_call list" where
  "update_appointment e appointment_id data s =
     (case data of
        JObj kvs \<Rightarrow>
          (case dict_get kvs ''status'' of
             Some (JStr st) \<Rightarrow>
               if st \<in> set valid_statuses
               then update_storage e appointment_id st (dict_get_default kvs ''notes'' (JStr [])) s
               else ((Error ''Invalid status'', 400), s, [])
           | _ \<Rightarrow> ((Error ''Invalid status'', 400), s, []))
      | _ \<Rightarrow> (internal_server_error, s, []))"

section \<open>The chat relay\<close>

text \<open>\<^verbatim>\<open>str.strip()\<close> on an ASCII text.\<close>

definition py_isspace :: "char \<Rightarrow> bool" where
  "py_isspace c =
     (c \<in> set [CHR '' '', CHR 0x09, CHR 0x0A, CHR 0x0B, CHR 0x0C, CHR 0x0D,
               CHR 0x1C, CHR 0x1D, CHR 0x1E, CHR 0x1F])"

definition strip :: "string \<Rightarrow> string" where
  "strip s = rev (dropWhile py_isspace (rev (dropWhile py_isspace s)))"

definition chat_failed :: response where
  "chat_failed = (Error ''Failed to process your message. Please try again.'', 500)"

definition fallback_response :: string where
  "fallback_response = ''I apologize, but I couldn't generate a response. Please try again.''"

text \<open>
  The inner \<^verbatim>\<open>try\<close> of \<^verbatim>\<open>chat\<close>: connect, insert, commit, close. Whatever raises
  is logged and dropped; the row is in the table once the commit went through.
\<close>

definition save_chat :: "env \<Rightarrow> json \<Rightarrow> string \<Rightarrow> string \<Rightarrow> db \<Rightarrow> db \<times> db_call list" where
  "save_chat e session_id user_message bot_response s =
     (if faults e Connect then (s, [Connect])
      else if faults e Cursor then (s, [Connect, Cursor])
      else if faults e (Execute InsertChat) then (s, [Connect, Cursor, Execute InsertChat])
      else if faults e Commit then (s, [Connect, Cursor, Execute InsertChat, Commit])
      else (s\<lparr>chat_history := chat_history s @
                 [\<lparr>c_session_id = session_id, c_user_message = user_message,
                   c_bot_response = bot_response, c_created_at = current_timestamp e\<rparr>]\<rparr>,
            [Connect, Cursor, Execute InsertChat, Commit, Close]))"

text \<open>
  \<^verbatim>\<open>chat\<close>: \<^verbatim>\<open>data.get('message', '').strip()\<close> raises on a body that is no object
  and on a message that is no text, before the model is called.
\<close>

definition chat :: "env \<Rightarrow> json \<Rightarrow> db \<Rightarrow> response \<times> db \<times> db_call list" where
  "chat e data s =
     (case data of
        JObj kvs \<Rightarrow>
          (case dict_get_default kvs ''message'' (JStr []) of
             JStr m \<Rightarrow>
               if strip m = [] then ((Error ''Message is required'', 400), s, [])
               else
                 (case generate_content e (strip m) of
                    GenerateRaises \<Rightarrow> (chat_failed, s, [])
                  | Generated txt \<Rightarrow>
                      ((ChatReply
                          (case txt of None \<Rightarrow> fallback_response
                           | Some r \<Rightarrow> if r = [] then fallback_response else r)
                          (dict_get_default kvs ''session_id'' (JStr (uuid4 e))) ''now'', 200),
                       save_chat e (dict_get_default kvs ''session_id'' (JStr (uuid4 e))) (strip m)
                         (case txt of None \<Rightarrow> fallback_response
                          | Some r \<Rightarrow> if r = [] then fallback_response else r) s))
           | _ \<Rightarrow> (chat_failed, s, []))
      | _ \<Rightarrow> (chat_failed, s, []))"

definition history_failed :: response where
  "history_failed = (Error ''Failed to retrieve chat history'', 500)"

text \<open>
  \<^verbatim>\<open>SELECT user_message, bot_response, created_at FROM chat_history WHERE session_id = %s
  ORDER BY created_at ASC\<close>.
\<close>

definition select_history :: "db \<Rightarrow> string \<Rightarrow> chat_turn list" where
  "select_history s session_id =
     sort_key c_created_at (filter (\<lambda>c. c_session_id c = JStr session_id) (chat_history s))"

definition history_json :: "chat_turn \<Rightarrow> history_view" where
  "history_json c =
     \<lparr>h_user_message = c_user_message c, h_bot_response = c_bot_response c,
      h_timestamp = datetime_isoformat (c_created_at c)\<rparr>"

text \<open>\<^verbatim>\<open>get_chat_history\<close>, shaped as \<^verbatim>\<open>get_appointments\<close> is.\<close>

definition get_chat_history :: "env \<Rightarrow> string \<Rightarrow> db \<Rightarrow> response \<times> db \<times> db_call list" where
  "get_chat_history e session_id s =
     (if faults e Connect then (history_failed, s, [Connect])
      else if faults e Cursor then (history_failed, s, [Connect, Cursor])
      else if faults e (Execute SelectHistory)
      then (history_failed, s, [Connect, Cursor, Execute SelectHistory])
      else if faults e Close
      then (history_failed, s, [Connect, Cursor, Execute SelectHistory, Close])
      else ((History (map history_json (select_history s session_id)), 200), s,
            [Connect, Cursor, Execute SelectHistory, Close]))"

section \<open>The routes, and runs of requests\<close>

datatype request =
    Book json
  | ListAppointments "string option" "string option"
  | Update int json
  | Converse json
  | GetHistory string

definition serve :: "env \<Rightarrow> request \<Rightarrow> db \<Rightarrow> response \<times> db \<times> db_call list" where
  "serve e rq s =
     (case rq of
        Book data \<Rightarrow> book_appointment e data s
      | ListAppointments doctor_id status \<Rightarrow> get_appointments e doctor_id status s
      | Update appointment_id data \<Rightarrow> update_appointment e appointment_id data s
      | Converse data \<Rightarrow> chat e data s
      | GetHistory session_id \<Rightarrow> get_chat_history e session_id s)"

text \<open>Requests served one after the other: the responses, and the tables at the end.\<close>

fun serve_all :: "env \<Rightarrow> request list \<Rightarrow> db \<Rightarrow> response list \<times> db" where
  "serve_all e [] s = ([], s)"
| "serve_all e (rq # rqs) s =
     (case serve e rq s of
        (r, s', calls) \<Rightarrow> (case serve_all e rqs s' of (rs, s'') \<Rightarrow> (r # rs, s'')))"

section \<open>Properties of the tables and of the gateway calls\<close>

definition slot_of :: "appointment \<Rightarrow> int \<times> date \<times> time_of_day" where
  "slot_of a = (a_doctor_id a, a_appointment_date a, a_appointment_time a)"

text \<open>At most one active appointment for a doctor, date and time.\<close>

definition no_double_booking :: "db \<Rightarrow> bool" where
  "no_double_booking s = distinct (map slot_of (filter active (appointments s)))"

text \<open>
  A run of gateway calls leaves a connection open when it acquired one (the connect did
  not raise) and never called close.
\<close>

definition leaves_connection_open :: "env \<Rightarrow> db_call list \<Rightarrow> bool" where
  "leaves_connection_open e calls =
     (Connect \<in> set calls \<and> \<not> faults e Connect \<and> Close \<notin> set calls)"

section \<open>Example data\<close>

definition example_env :: env where
  "example_env =
     \<lparr>now = ((2026, 11, 4), 9, 30, 15, 0), current_timestamp = ((2026, 11, 4), 9, 30, 15, 0),
      faults = no_faults, uuid4 = ''0b8e6c1e-52a4-4d0c-9a55-2f1f0c3e7d11'',
      generate_content = (\<lambda>m. Generated (Some ''Rest and drink water.''))\<rparr>"

definition example_db :: db where
  "example_db =
     \<lparr>doctors = [\<lparr>d_id = 3, d_name = ''Dr. Rao'', d_specialization = ''Cardiology'',
                  d_is_verified = True\<rparr>],
      appointments = [], chat_history = [], appointments_id_seq = 0\<rparr>"

definition example_fields :: "(string \<times> json) list" where
  "example_fields =
     [(''patient_name'', JStr ''Jane Doe''), (''patient_email'', JStr ''jane@x.com''),
      (''doctor_id'', JInt 3), (''appointment_date'', JStr ''2099-01-01''),
      (''appointment_time'', JStr ''10:00'')]"

definition example_appointment :: appointment where
  "example_appointment =
     \<lparr>a_id = 1, a_patient_name = JStr ''Jane Doe'', a_patient_email = JStr ''jane@x.com'',
      a_patient_phone = JStr [], a_doctor_id = 3, a_appointment_date = (2099, 1, 1),
      a_appointment_time = (10, 0), a_reason = JStr [], a_status = ''pending'', a_notes = JNull,
      a_created_at = ((2026, 11, 4), 9, 30, 15, 0), a_updated_at = ((2026, 11, 4), 9, 30, 15, 0)\<rparr>"

definition example_booked_db :: db where
  "example_booked_db = example_db\<lparr>appointments := [example_appointment], appointments_id_seq := 1\<rparr>"

text \<open>Book a slot, cancel the appointment, book the slot again, confirm the first.\<close>

definition example_rebooking :: "request list" where
  "example_rebooking =
     [Book (JObj example_fields), Update 1 (JObj [(''status'', JStr ''cancelled'')]),
      Book (JObj example_fields), Update 1 (JObj [(''status'', JStr ''confirmed'')])]"

definition example_chat :: json where
  "example_chat = JObj [(''message'', JStr ''I have a headache''), (''session_id'', JStr ''s-42'')]"

definition example_past_fields :: "(string \<times> json) list" where
  "example_past_fields =
     [(''patient_name'', JStr ''Jane Doe''), (''patient_email'', JStr ''jane@x.com''),
      (''doctor_id'', JInt 3), (''appointment_date'', JStr ''2020-01-01''),
      (''appointment_time'', JStr ''10:00'')]"

definition example_zero_doctor_fields :: "(string \<times> json) list" where
  "example_zero_doctor_fields =
     [(''patient_name'', JStr ''Jane Doe''), (''patient_email'', JStr ''jane@x.com''),
      (''doctor_id'', JInt 0), (''appointment_date'', JStr ''2099-01-01''),
      (''appointment_time'', JStr ''10:00'')]"

definition example_numeric_date_fields :: "(string \<times> json) list" where
  "example_numeric_date_fields =
     [(''patient_name'', JStr ''Jane Doe''), (''patient_email'', JStr ''jane@x.com''),
      (''doctor_id'', JInt 3), (''appointment_date'', JInt 20990101),
      (''appointment_time'', JStr ''10:00'')]"

definition example_slashed_date_fields :: "(string \<times> json) list" where
  "example_slashed_date_fields =
     [(''patient_name'', JStr ''Jane Doe''), (''patient_email'', JStr ''jane@x.com''),
      (''doctor_id'', JInt 3), (''appointment_date'', JStr ''01/01/2099''),
      (''appointment_time'', JStr ''10:00'')]"

text \<open>Two doctors and three appointments, for the listing.\<close>

definition example_listing_db :: db where
  "example_listing_db =
     \<lparr>doctors = [\<lparr>d_id = 3, d_name = ''Dr. Rao'', d_specialization = ''Cardiology'',
                  d_is_verified = True\<rparr>,
                 \<lparr>d_id = 4, d_name = ''Dr. Iyer'', d_specialization = ''Dermatology'',
                  d_is_verified = True\<rparr>],
      appointments =
        [example_appointment,
         example_appointment\<lparr>a_id := 2, a_doctor_id := 4, a_appointment_date := (2099, 3, 1)\<rparr>,
         example_appointment\<lparr>a_id := 3, a_appointment_time := (15, 30), a_status := ''cancelled''\<rparr>],
      chat_history = [], appointments_id_seq = 3\<rparr>"

section \<open>Validation of a booking\<close>

lemma required_present:
  assumes "find (is_missing kvs) required_fields = None" and "f \<in> set required_fields"
  shows "\<exists>v. dict_get kvs f = Some v \<and> truthy v"
  using assms by (auto simp: find_None_iff is_missing_def split: option.splits)

lemma book_first_missing:
  assumes "find (is_missing kvs) required_fields = Some g"
  shows "book_appointment e (JObj kvs) s = ((Error (g @ '' is required''), 400), s, [])"
  using assms by (simp add: book_appointment_def validate_booking_def)

lemma find_first:
  assumes "f \<in> set xs" and "P f" and "list_all (\<lambda>x. \<not> P x) (takeWhile (\<lambda>x. x \<noteq> f) xs)"
  shows "find P xs = Some f"
  using assms by (induction xs) (auto split: if_splits)

lemma validate_booking_texts:
  assumes req: "find (is_missing kvs) required_fields = None"
      and dt: "dict_get kvs ''appointment_date'' = Some (JStr ds)"
      and tm: "dict_get kvs ''appointment_time'' = Some (JStr ts)"
  shows "\<exists>pn pe did.
           dict_get kvs ''patient_name'' = Some pn \<and> dict_get kvs ''patient_email'' = Some pe \<and>
           dict_get kvs ''doctor_id'' = Some did \<and>
           validate_booking clock (JObj kvs) =
             (case strptime_date ds of
                None \<Rightarrow> Inl invalid_format
              | Some d \<Rightarrow>
                  (case strptime_time ts of
                     None \<Rightarrow> Inl invalid_format
                   | Some t \<Rightarrow>
                       if datetime_combine d t \<le> clock then Inl not_future
                       else Inr \<lparr>b_patient_name = pn, b_patient_email = pe,
                                 b_patient_phone = dict_get_default kvs ''patient_phone'' (JStr []),
                                 b_doctor_id = did, b_appointment_date = JStr ds,
                                 b_appointment_time = JStr ts,
                                 b_reason = dict_get_default kvs ''reason'' (JStr []),
                                 b_date_obj = d, b_time_obj = t\<rparr>))"
proof -
  obtain pn where pn: "dict_get kvs ''patient_name'' = Some pn"
    using required_present [OF req, of "''patient_name''"] by (auto simp: required_fields_def)
  obtain pe where pe: "dict_get kvs ''patient_email'' = Some pe"
    using required_present [OF req, of "''patient_email''"] by (auto simp: required_fields_def)
  obtain did where did: "dict_get kvs ''doctor_id'' = Some did"
    using required_present [OF req, of "''doctor_id''"] by (auto simp: required_fields_def)
  show ?thesis
    using req
    by (simp add: validate_booking_def pn pe did dt tm strptime_arg_def split: option.splits)
qed

lemma book_storage_starts_with_connect:
  "snd (snd (book_storage e b s)) \<noteq> [] \<and> hd (snd (snd (book_storage e b s))) = Connect"
  by (simp add: book_storage_def book_failed_def split: option.splits)

text \<open>
  C2. A booking request with its required fields, whose date and time are texts that
  parse, and whose combined date and time is not later than the clock, is answered 400
  "Appointment must be scheduled for a future date and time": whatever the doctors and
  appointments tables hold and whatever the gateway would do, the tables are as before
  and no gateway call is made.
\<close>

theorem book_past_rejected:
  assumes "find (is_missing kvs) required_fields = None"
      and "dict_get kvs ''appointment_date'' = Some (JStr ds)"
      and "dict_get kvs ''appointment_time'' = Some (JStr ts)"
      and "strptime_date ds = Some d"
      and "strptime_time ts = Some t"
      and "datetime_combine d t \<le> now e"
  shows "book_appointment e (JObj kvs) s =
           ((Error ''Appointment must be scheduled for a future date and time'', 400), s, [])"
proof -
  from validate_booking_texts [OF assms(1-3), of "now e"] assms(4-6)
  have "validate_booking (now e) (JObj kvs) = Inl not_future" by auto
  then show ?thesis by (simp add: book_appointment_def not_future_def)
qed

theorem book_past_rejected_witness:
  "book_appointment example_env (JObj example_past_fields) example_listing_db =
     ((Error ''Appointment must be scheduled for a future date and time'', 400),
      example_listing_db, [])"
proof -
  have 1: "find (is_missing example_past_fields) required_fields = None" by code_simp
  have 2: "dict_get example_past_fields ''appointment_date'' = Some (JStr ''2020-01-01'')"
    by code_simp
  have 3: "dict_get example_past_fields ''appointment_time'' = Some (JStr ''10:00'')"
    by code_simp
  have 4: "strptime_date ''2020-01-01'' = Some (2020, 1, 1)" by code_simp
  have 5: "strptime_time ''10:00'' = Some (10, 0)" by code_simp
  have 6: "datetime_combine (2020, 1, 1) (10, 0) \<le> now example_env" by code_simp
  show ?thesis by (rule book_past_rejected [OF 1 2 3 4 5 6])
qed

text \<open>
  C3, as amended. For a booking request whose body is an object and whose appointment
  date and time, where present and non-empty, are texts: the first required field, in the order patient_name,
  patient_email, doctor_id, appointment_date, appointment_time, that is absent or empty
  gives 400 "<field> is required"; with none, a date or time that does not parse gives
  400 "Invalid date or time format"; with both parsed, a combined date and time not later
  than the clock gives 400 "Appointment must be scheduled for a future date and time".
  Each of the three answers comes with no gateway call and the tables unchanged; only
  when all three checks pass is the gateway called, and the first call is the connect.
\<close>

theorem book_validation_order:
  assumes dtext: "\<not> is_missing kvs ''appointment_date'' \<Longrightarrow>
                    \<exists>ds. dict_get kvs ''appointment_date'' = Some (JStr ds)"
      and ttext: "\<not> is_missing kvs ''appointment_time'' \<Longrightarrow>
                    \<exists>ts. dict_get kvs ''appointment_time'' = Some (JStr ts)"
  shows "(\<forall>f. find (is_missing kvs) required_fields = Some f \<longrightarrow>
              book_appointment e (JObj kvs) s = ((Error (f @ '' is required''), 400), s, [])) \<and>
         (find (is_missing kvs) required_fields = None \<longrightarrow>
            (\<exists>ds ts. dict_get kvs ''appointment_date'' = Some (JStr ds) \<and>
                      dict_get kvs ''appointment_time'' = Some (JStr ts) \<and>
               (if strptime_date ds = None \<or> strptime_time ts = None
                then book_appointment e (JObj kvs) s =
                       ((Error ''Invalid date or time format'', 400), s, [])
                else if datetime_combine (the (strptime_date ds)) (the (strptime_time ts)) \<le> now e
                then book_appointment e (JObj kvs) s =
                       ((Error ''Appointment must be scheduled for a future date and time'', 400), s, [])
                else snd (snd (book_appointment e (JObj kvs) s)) \<noteq> [] \<and>
                     hd (snd (snd (book_appointment e (JObj kvs) s))) = Connect)))"
proof (intro conjI allI impI)
  fix f assume "find (is_missing kvs) required_fields = Some f"
  then show "book_appointment e (JObj kvs) s = ((Error (f @ '' is required''), 400), s, [])"
    by (rule book_first_missing)
next
  assume req: "find (is_missing kvs) required_fields = None"
  then have "\<forall>f \<in> set required_fields. \<not> is_missing kvs f"
    by (simp add: find_None_iff)
  then have "\<not> is_missing kvs ''appointment_date''" "\<not> is_missing kvs ''appointment_time''"
    by (simp_all add: required_fields_def)
  then obtain ds ts where dt: "dict_get kvs ''appointment_date'' = Some (JStr ds)"
      and tm: "dict_get kvs ''appointment_time'' = Some (JStr ts)"
    using dtext ttext by blast
  from validate_booking_texts [OF req dt tm, of "now e"]
  obtain pn pe did where v: "validate_booking (now e) (JObj kvs) =
             (case strptime_date ds of
                None \<Rightarrow> Inl invalid_format
              | Some d \<Rightarrow>
                  (case strptime_time ts of
                     None \<Rightarrow> Inl invalid_format
                   | Some t \<Rightarrow>
                       if datetime_combine d t \<le> now e then Inl not_future
                       else Inr \<lparr>b_patient_name = pn, b_patient_email = pe,
                                 b_patient_phone = dict_get_default kvs ''patient_phone'' (JStr []),
                                 b_doctor_id = did, b_appointment_date = JStr ds,
                                 b_appointment_time = JStr ts,
                                 b_reason = dict_get_default kvs ''reason'' (JStr []),
                                 b_date_obj = d, b_time_obj = t\<rparr>))"
    by blast
  have "if strptime_date ds = None \<or> strptime_time ts = None
                then book_appointment e (JObj kvs) s =
                       ((Error ''Invalid date or time format'', 400), s, [])
                else if datetime_combine (the (strptime_date ds)) (the (strptime_time ts)) \<le> now e
                then book_appointment e (JObj kvs) s =
                       ((Error ''Appointment must be scheduled for a future date and time'', 400), s, [])
                else snd (snd (book_appointment e (JObj kvs) s)) \<noteq> [] \<and>
                     hd (snd (snd (book_appointment e (JObj kvs) s))) = Connect"
    using book_storage_starts_with_connect
    by (auto simp: book_appointment_def v invalid_format_def not_future_def split: option.splits)
  with dt tm show "\<exists>ds ts. dict_get kvs ''appointment_date'' = Some (JStr ds) \<and>
                      dict_get kvs ''appointment_time'' = Some (JStr ts) \<and>
               (if strptime_date ds = None \<or> strptime_time ts = None
                then book_appointment e (JObj kvs) s =
                       ((Error ''Invalid date or time format'', 400), s, [])
                else if datetime_combine (the (strptime_date ds)) (the (strptime_time ts)) \<le> now e
                then book_appointment e (JObj kvs) s =
                       ((Error ''Appointment must be scheduled for a future date and time'', 400), s, [])
                else snd (snd (book_appointment e (JObj kvs) s)) \<noteq> [] \<and>
                     hd (snd (snd (book_appointment e (JObj kvs) s))) = Connect)"
    by blast
qed

theorem book_validation_order_witness:
  "book_appointment example_env (JObj example_slashed_date_fields) example_db =
     ((Error ''Invalid date or time format'', 400), example_db, []) \<and>
   book_appointment example_env (JObj example_past_fields) example_db =
     ((Error ''Appointment must be scheduled for a future date and time'', 400), example_db, []) \<and>
   book_appointment example_env (JObj example_zero_doctor_fields) example_db =
     ((Error ''doctor_id is required'', 400), example_db, []) \<and>
   hd (snd (snd (book_appointment example_env (JObj example_fields) example_db))) = Connect"
proof -
  have d1: "dict_get example_slashed_date_fields ''appointment_date'' = Some (JStr ''01/01/2099'')"
    and t1: "dict_get example_slashed_date_fields ''appointment_time'' = Some (JStr ''10:00'')"
    and f1: "find (is_missing example_slashed_date_fields) required_fields = None"
    and p1: "strptime_date ''01/01/2099'' = None"
    by code_simp+
  have d2: "dict_get example_past_fields ''appointment_date'' = Some (JStr ''2020-01-01'')"
    and t2: "dict_get example_past_fields ''appointment_time'' = Some (JStr ''10:00'')"
    and f2: "find (is_missing example_past_fields) required_fields = None"
    and p2: "strptime_date ''2020-01-01'' = Some (2020, 1, 1)"
    and q2: "strptime_time ''10:00'' = Some (10, 0)"
    and c2: "datetime_combine (2020, 1, 1) (10, 0) \<le> now example_env"
    by code_simp+
  have d3: "dict_get example_zero_doctor_fields ''appointment_date'' = Some (JStr ''2099-01-01'')"
    and t3: "dict_get example_zero_doctor_fields ''appointment_time'' = Some (JStr ''10:00'')"
    and f3: "find (is_missing example_zero_doctor_fields) required_fields = Some ''doctor_id''"
    by code_simp+
  have d4: "dict_get example_fields ''appointment_date'' = Some (JStr ''2099-01-01'')"
    and t4: "dict_get example_fields ''appointment_time'' = Some (JStr ''10:00'')"
    and f4: "find (is_missing example_fields) required_fields = None"
    and p4: "strptime_date ''2099-01-01'' = Some (2099, 1, 1)"
    and c4: "\<not> datetime_combine (2099, 1, 1) (10, 0) \<le> now example_env"
    by code_simp+
  from book_validation_order [of example_slashed_date_fields example_env example_db]
  have a: "book_appointment example_env (JObj example_slashed_date_fields) example_db =
     ((Error ''Invalid date or time format'', 400), example_db, [])"
    by (simp add: d1 t1 f1 p1)
  from book_validation_order [of example_past_fields example_env example_db]
  have b: "book_appointment example_env (JObj example_past_fields) example_db =
     ((Error ''Appointment must be scheduled for a future date and time'', 400), example_db, [])"
    by (simp add: d2 t2 f2 p2 q2 c2 del: One_nat_def)
  from book_validation_order [of example_zero_doctor_fields example_env example_db]
  have c: "book_appointment example_env (JObj example_zero_doctor_fields) example_db =
     ((Error ''doctor_id is required'', 400), example_db, [])"
    by (simp add: d3 t3 f3)
  from book_validation_order [of example_fields example_env example_db]
  have d: "hd (snd (snd (book_appointment example_env (JObj example_fields) example_db))) = Connect"
    by (simp add: d4 t4 f4 p4 q2 c4 del: One_nat_def)
  from a b c d show ?thesis by simp
qed

text \<open>
  The claim as stated fails where the date is not a text: every required field is there,
  the date does not parse, and the answer is 500 "Internal server error". It fails as
  well on a body that is no object, which has none of the required fields.
\<close>

theorem book_validation_order_counterexample:
  "find (is_missing example_numeric_date_fields) required_fields = None \<and>
   book_appointment example_env (JObj example_numeric_date_fields) example_db =
     ((Error ''Internal server error'', 500), example_db, []) \<and>
   book_appointment example_env JNull example_db =
     ((Error ''Internal server error'', 500), example_db, [])"
  by code_simp

text \<open>
  C8. A required field that is present but falsy (0, False, an empty text, list or
  object, null) counts as missing: the request is answered 400 "<field> is required"
  for the first required field that is absent or falsy, which is that field when the
  required fields before it are present and truthy. No gateway call is made, so a
  doctor_id of 0 or False never reaches the doctor lookup and its 404.
\<close>

theorem book_falsy_field_required:
  assumes "f \<in> set required_fields" and "dict_get kvs f = Some v" and "\<not> truthy v"
  shows "(\<exists>g. find (is_missing kvs) required_fields = Some g \<and>
              book_appointment e (JObj kvs) s = ((Error (g @ '' is required''), 400), s, [])) \<and>
         (list_all (\<lambda>x. \<not> is_missing kvs x) (takeWhile (\<lambda>x. x \<noteq> f) required_fields) \<longrightarrow>
              book_appointment e (JObj kvs) s = ((Error (f @ '' is required''), 400), s, []))"
proof -
  have miss: "is_missing kvs f" using assms by (simp add: is_missing_def)
  then obtain g where g: "find (is_missing kvs) required_fields = Some g"
    using assms(1) by (cases "find (is_missing kvs) required_fields") (auto simp: find_None_iff)
  have "find (is_missing kvs) required_fields = Some f"
    if "list_all (\<lambda>x. \<not> is_missing kvs x) (takeWhile (\<lambda>x. x \<noteq> f) required_fields)"
    using find_first [OF assms(1) miss that] .
  with g show ?thesis by (auto simp: book_first_missing)
qed

theorem book_falsy_field_required_witness:
  "book_appointment example_env (JObj example_zero_doctor_fields) example_db =
     ((Error ''doctor_id is required'', 400), example_db, [])"
proof -
  have 1: "''doctor_id'' \<in> set required_fields" by (simp add: required_fields_def)
  have 2: "dict_get example_zero_doctor_fields ''doctor_id'' = Some (JInt 0)" by code_simp
  have 3: "\<not> truthy (JInt 0)" by simp
  have 4: "list_all (\<lambda>x. \<not> is_missing example_zero_doctor_fields x)
             (takeWhile (\<lambda>x. x \<noteq> ''doctor_id'') required_fields)"
    by code_simp
  from book_falsy_field_required [OF 1 2 3, of example_env example_db] 4
  show ?thesis by simp
qed

section \<open>No double booking\<close>

lemma book_storage_effect:
  "fst (snd (book_storage e b s)) = s \<or>
   (\<exists>did. sql_int (b_doctor_id b) = Some did \<and>
           select_conflict s did (b_date_obj b) (b_time_obj b) = None \<and>
           fst (snd (book_storage e b s)) =
             insert_appointment s (new_appointment e b did (appointments_id_seq s + 1)))"
  by (simp add: book_storage_def book_failed_def split: option.splits)

lemma book_storage_taken:
  assumes "sql_int (b_doctor_id b) = Some did"
      and "select_conflict s did (b_date_obj b) (b_time_obj b) = Some a"
  shows "fst (snd (book_storage e b s)) = s"
  using assms by (simp add: book_storage_def book_failed_def split: option.splits)

lemma book_storage_conflict:
  assumes "sql_int (b_doctor_id b) = Some did"
      and "select_doctor s did = Some doc"
      and "select_conflict s did (b_date_obj b) (b_time_obj b) = Some a"
      and "\<not> faults e Connect" and "\<not> faults e Cursor" and "\<not> faults e (Execute SelectDoctor)"
      and "\<not> faults e (Execute SelectConflict)" and "\<not> faults e Close"
  shows "book_storage e b s =
           ((Error ''This time slot is already booked'', 409), s,
            [Connect, Cursor, Execute SelectDoctor, Execute SelectConflict, Close])"
  using assms by (simp add: book_storage_def finally_close_def)

lemma insert_keeps_invariant:
  assumes inv: "no_double_booking s"
      and free: "select_conflict s did (b_date_obj b) (b_time_obj b) = None"
  shows "no_double_booking (insert_appointment s (new_appointment e b did n))"
proof -
  have "slot_of (new_appointment e b did n) \<notin> slot_of ` set (filter active (appointments s))"
    using free
    by (auto simp: select_conflict_def find_None_iff in_slot_def slot_of_def new_appointment_def)
  then show ?thesis
    using inv by (simp add: no_double_booking_def insert_appointment_def)
qed

lemma book_keeps_invariant:
  assumes "no_double_booking s"
  shows "no_double_booking (fst (snd (book_appointment e data s)))"
proof (cases "validate_booking (now e) data")
  case (Inl r)
  then show ?thesis using assms by (simp add: book_appointment_def)
next
  case (Inr b)
  then have eq: "book_appointment e data s = book_storage e b s"
    by (simp add: book_appointment_def)
  from book_storage_effect [of e b s] show ?thesis
    using assms insert_keeps_invariant [OF assms] by (auto simp: eq)
qed

lemma occupied_conflict:
  assumes "list_ex (\<lambda>a. in_slot did d t a \<and> active a) (appointments s)"
  shows "\<exists>a. select_conflict s did d t = Some a"
  using assms
  by (cases "select_conflict s did d t") (auto simp: select_conflict_def find_None_iff list_ex_iff)

text \<open>
  C1, as amended. Take a booking request that has its required fields, a doctor id the
  engine reads as an integer, and a date and time that parse, and let an appointment that
  is neither cancelled nor completed be stored for that doctor, date and time. Then Book
  inserts nothing, whatever else happens; and when the date and time are in the future,
  the doctor is verified and no gateway call raises, the answer is 409 "This time slot
  is already booked". Hence Book never adds a second active appointment to a slot: it
  keeps "at most one active appointment for a doctor, date and time" for every request.
  (Update makes no such check.)
\<close>

theorem book_no_double_booking:
  assumes req: "find (is_missing kvs) required_fields = None"
      and doc: "dict_get kvs ''doctor_id'' = Some v" "sql_int v = Some did"
      and dt: "dict_get kvs ''appointment_date'' = Some (JStr ds)" "strptime_date ds = Some d"
      and tm: "dict_get kvs ''appointment_time'' = Some (JStr ts)" "strptime_time ts = Some t"
      and occupied: "list_ex (\<lambda>a. in_slot did d t a \<and> active a) (appointments s)"
  shows "fst (snd (book_appointment e (JObj kvs) s)) = s \<and>
         (\<not> datetime_combine d t \<le> now e \<and> select_doctor s did \<noteq> None \<and>
          \<not> faults e Connect \<and> \<not> faults e Cursor \<and> \<not> faults e (Execute SelectDoctor) \<and>
          \<not> faults e (Execute SelectConflict) \<and> \<not> faults e Close \<longrightarrow>
            book_appointment e (JObj kvs) s =
              ((Error ''This time slot is already booked'', 409), s,
               [Connect, Cursor, Execute SelectDoctor, Execute SelectConflict, Close])) \<and>
         (\<forall>e' data' s'. no_double_booking s' \<longrightarrow>
            no_double_booking (fst (snd (book_appointment e' data' s'))))"
proof -
  obtain a where a: "select_conflict s did d t = Some a"
    using occupied_conflict [OF occupied] by blast
  from validate_booking_texts [OF req dt(1) tm(1), of "now e"] doc(1) dt(2) tm(2)
  obtain pn pe where v: "validate_booking (now e) (JObj kvs) =
       (if datetime_combine d t \<le> now e then Inl not_future
        else Inr \<lparr>b_patient_name = pn, b_patient_email = pe,
                  b_patient_phone = dict_get_default kvs ''patient_phone'' (JStr []),
                  b_doctor_id = v, b_appointment_date = JStr ds,
                  b_appointment_time = JStr ts,
                  b_reason = dict_get_default kvs ''reason'' (JStr []),
                  b_date_obj = d, b_time_obj = t\<rparr>)"
    by auto
  have unchanged: "fst (snd (book_appointment e (JObj kvs) s)) = s"
    using book_storage_taken [of _ did s a e] doc(2) a
    by (simp add: book_appointment_def v)
  have conflict: "book_appointment e (JObj kvs) s =
              ((Error ''This time slot is already booked'', 409), s,
               [Connect, Cursor, Execute SelectDoctor, Execute SelectConflict, Close])"
    if "\<not> datetime_combine d t \<le> now e" "select_doctor s did \<noteq> None"
       "\<not> faults e Connect" "\<not> faults e Cursor" "\<not> faults e (Execute SelectDoctor)"
       "\<not> faults e (Execute SelectConflict)" "\<not> faults e Close"
  proof -
    from that(2) obtain doc where "select_doctor s did = Some doc" by auto
    then show ?thesis
      using book_storage_conflict [of _ did s doc a e] doc(2) a that
      by (simp add: book_appointment_def v)
  qed
  show ?thesis
    using unchanged conflict book_keeps_invariant by blast
qed

theorem book_no_double_booking_witness:
  "book_appointment example_env (JObj example_fields) example_booked_db =
     ((Error ''This time slot is already booked'', 409), example_booked_db,
      [Connect, Cursor, Execute SelectDoctor, Execute SelectConflict, Close])"
proof -
  have 1: "find (is_missing example_fields) required_fields = None"
    and 2: "dict_get example_fields ''doctor_id'' = Some (JInt 3)"
    and 3: "sql_int (JInt 3) = Some 3"
    and 4: "dict_get example_fields ''appointment_date'' = Some (JStr ''2099-01-01'')"
    and 5: "strptime_date ''2099-01-01'' = Some (2099, 1, 1)"
    and 6: "dict_get example_fields ''appointment_time'' = Some (JStr ''10:00'')"
    and 7: "strptime_time ''10:00'' = Some (10, 0)"
    and 8: "list_ex (\<lambda>a. in_slot 3 (2099, 1, 1) (10, 0) a \<and> active a) (appointments example_booked_db)"
    by code_simp+
  have 9: "\<not> datetime_combine (2099, 1, 1) (10, 0) \<le> now example_env"
    and 10: "select_doctor example_booked_db 3 \<noteq> None"
    and 11: "\<not> faults example_env Connect" "\<not> faults example_env Cursor"
            "\<not> faults example_env (Execute SelectDoctor)"
            "\<not> faults example_env (Execute SelectConflict)" "\<not> faults example_env Close"
    by code_simp+
  from book_no_double_booking [OF 1 2 3 4 5 6 7 8, of example_env] 9 10 11
  show ?thesis by blast
qed

text \<open>
  The claim as stated fails. Served one after the other from tables with no
  appointment, a booking, the cancellation of that appointment, the same booking again
  and the confirmation of the first appointment all succeed, and leave two active
  appointments in one slot. And a request for a slot that an active appointment holds
  is answered 400 once the slot is no longer in the future, 404 when the doctor is not
  (or no longer) a verified one, and 500 when the conflict query raises: each time
  without a new row, but not with the 409.
\<close>

theorem book_no_double_booking_counterexample:
  "no_double_booking example_db \<and>
   map snd (fst (serve_all example_env example_rebooking example_db)) = [200, 200, 200, 200] \<and>
   map (\<lambda>a. (a_id a, slot_of a, a_status a))
       (appointments (snd (serve_all example_env example_rebooking example_db))) =
     [(1, (3, (2099, 1, 1), (10, 0)), ''confirmed''), (2, (3, (2099, 1, 1), (10, 0)), ''pending'')] \<and>
   \<not> no_double_booking (snd (serve_all example_env example_rebooking example_db)) \<and>
   book_appointment (example_env\<lparr>now := ((2099, 6, 1), 0, 0, 0, 0)\<rparr>) (JObj example_fields)
       example_booked_db =
     ((Error ''Appointment must be scheduled for a future date and time'', 400),
      example_booked_db, []) \<and>
   fst (book_appointment example_env (JObj example_fields) (example_booked_db\<lparr>doctors := []\<rparr>)) =
     (Error ''Doctor not found or not verified'', 404) \<and>
   fst (book_appointment (example_env\<lparr>faults := (\<lambda>c. c = Execute SelectConflict)\<rparr>)
          (JObj example_fields) example_booked_db) =
     (Error ''Failed to book appointment'', 500)"
  by code_simp

section \<open>Listing\<close>

lemma join_one_doctor:
  assumes one: "\<forall>a \<in> set (appointments s).
                  length (filter (\<lambda>d. d_id d = a_doctor_id a) (doctors s)) = 1"
  shows "map fst (join_doctors s) = appointments s"
proof -
  have single: "\<exists>d. filter (\<lambda>d. a_doctor_id a = d_id d) (doctors s) = [d]"
    if "a \<in> set (appointments s)" for a
  proof -
    have "filter (\<lambda>d. a_doctor_id a = d_id d) (doctors s) =
          filter (\<lambda>d. d_id d = a_doctor_id a) (doctors s)"
      by (rule filter_cong) auto
    moreover from one that
    have "length (filter (\<lambda>d. d_id d = a_doctor_id a) (doctors s)) = Suc 0" by simp
    ultimately show ?thesis by (simp add: length_Suc_conv)
  qed
  have "map fst (concat (map (\<lambda>a. map (Pair a)
          (filter (\<lambda>d. a_doctor_id a = d_id d) (doctors s))) as)) = as"
    if "set as \<subseteq> set (appointments s)" for as
    using that
  proof (induction as)
    case Nil
    then show ?case by simp
  next
    case (Cons a as)
    then obtain d where "filter (\<lambda>d. a_doctor_id a = d_id d) (doctors s) = [d]"
      using single [of a] by auto
    with Cons show ?case by simp
  qed
  then show ?thesis by (simp add: join_doctors_def)
qed

lemma join_pairs:
  assumes "r \<in> set (join_doctors s)"
  shows "snd r \<in> set (doctors s) \<and> d_id (snd r) = a_doctor_id (fst r)"
  using assms by (auto simp: join_doctors_def)

lemma select_rows:
  "mset (map fst (select_appointments s did st)) = mset (filter (matches did st) (map fst (join_doctors s)))"
  by (simp add: select_appointments_def filter_map comp_def)

lemma select_sorted:
  "sorted_wrt (\<lambda>r r'. slot_key (fst r') \<le> slot_key (fst r)) (select_appointments s did st)"
proof -
  let ?k = "\<lambda>r :: appointment \<times> doctor. slot_key (fst r)"
  let ?xs = "sort_key ?k (filter (\<lambda>r. matches did st (fst r)) (join_doctors s))"
  have "sorted (map ?k ?xs)" by simp
  then have "sorted_wrt (\<lambda>r r'. ?k r \<le> ?k r') ?xs" by (simp add: sorted_map)
  then show ?thesis by (simp add: select_appointments_def sorted_wrt_rev)
qed

lemma select_subset: "set (select_appointments s did st) \<subseteq> set (join_doctors s)"
  by (auto simp: select_appointments_def)

lemma select_ordered:
  "sorted_wrt (\<lambda>r r'. a_appointment_date (fst r') < a_appointment_date (fst r) \<or>
                       a_appointment_date (fst r') = a_appointment_date (fst r) \<and>
                       a_appointment_time (fst r') \<le> a_appointment_time (fst r))
              (select_appointments s did st)"
proof -
  have "sorted_wrt (\<lambda>r r'. slot_key (fst r') \<le> slot_key (fst r)) (select_appointments s did st)"
    by (rule select_sorted)
  then show ?thesis
    by (rule sorted_wrt_mono_rel [rotated]) (auto simp: slot_key_def)
qed

text \<open>
  C6, as amended. With a gateway that does not raise, every appointment referring to
  exactly one stored doctor, and a doctor filter that is absent, empty or an integer
  text, List answers 200 with exactly the appointments that match the filters: an absent
  or empty filter restricts nothing, a doctor filter keeps that doctor's rows, a status
  filter keeps the rows of that status. Each record carries the appointment's fields
  and its doctor's name and specialization, and the records are ordered by appointment
  date descending, then appointment time descending.
\<close>

theorem list_filtered_and_ordered:
  assumes ok: "\<not> faults e Connect" "\<not> faults e Cursor" "\<not> faults e (Execute SelectAppointments)"
              "\<not> faults e Close"
      and one: "\<forall>a \<in> set (appointments s).
                  length (filter (\<lambda>d. d_id d = a_doctor_id a) (doctors s)) = 1"
      and num: "\<forall>t. doctor_id = Some t \<longrightarrow> t \<noteq> [] \<longrightarrow> int_of_text t \<noteq> None"
  shows "\<exists>rows.
           get_appointments e doctor_id status s =
             ((Appointments
                 (map (\<lambda>(a, d).
                        \<lparr>v_id = a_id a, v_patient_name = a_patient_name a,
                         v_patient_email = a_patient_email a,
                         v_patient_phone = a_patient_phone a, v_doctor_id = a_doctor_id a,
                         v_doctor_name = d_name d, v_specialization = d_specialization d,
                         v_appointment_date = date_isoformat (a_appointment_date a),
                         v_appointment_time = strftime_HM (a_appointment_time a),
                         v_reason = a_reason a, v_status = a_status a, v_notes = a_notes a,
                         v_created_at = datetime_isoformat (a_created_at a)\<rparr>) rows), 200), s,
              [Connect, Cursor, Execute SelectAppointments, Close]) \<and>
           mset (map fst rows) =
             mset (filter (\<lambda>a. (case doctor_id of None \<Rightarrow> True
                                 | Some t \<Rightarrow> t = [] \<or> int_of_text t = Some (a_doctor_id a)) \<and>
                                (case status of None \<Rightarrow> True
                                 | Some t \<Rightarrow> t = [] \<or> a_status a = t))
                          (appointments s)) \<and>
           (\<forall>(a, d) \<in> set rows. d \<in> set (doctors s) \<and> d_id d = a_doctor_id a) \<and>
           sorted_wrt (\<lambda>r r'. a_appointment_date (fst r') < a_appointment_date (fst r) \<or>
                               a_appointment_date (fst r') = a_appointment_date (fst r) \<and>
                               a_appointment_time (fst r') \<le> a_appointment_time (fst r)) rows"
proof -
  define did where "did = (case supplied doctor_id of None \<Rightarrow> None | Some t \<Rightarrow> int_of_text t)"
  have did: "(case supplied doctor_id of None \<Rightarrow> Some None
              | Some t \<Rightarrow> map_option Some (int_of_text t)) = Some did"
    using num by (cases doctor_id) (auto simp: did_def supplied_def)
  have m: "matches did (supplied status) =
        (\<lambda>a. (case doctor_id of None \<Rightarrow> True
               | Some t \<Rightarrow> t = [] \<or> int_of_text t = Some (a_doctor_id a)) \<and>
              (case status of None \<Rightarrow> True | Some t \<Rightarrow> t = [] \<or> a_status a = t))"
    using num
    by (intro ext) (auto simp: matches_def did_def supplied_def split: option.splits)
  let ?rows = "select_appointments s did (supplied status)"
  have view: "appointment_json =
        (\<lambda>(a, d).
            \<lparr>v_id = a_id a, v_patient_name = a_patient_name a,
             v_patient_email = a_patient_email a,
             v_patient_phone = a_patient_phone a, v_doctor_id = a_doctor_id a,
             v_doctor_name = d_name d, v_specialization = d_specialization d,
             v_appointment_date = date_isoformat (a_appointment_date a),
             v_appointment_time = strftime_HM (a_appointment_time a),
             v_reason = a_reason a, v_status = a_status a, v_notes = a_notes a,
             v_created_at = datetime_isoformat (a_created_at a)\<rparr>)"
    by (intro ext) (simp add: appointment_json_def)
  have resp: "get_appointments e doctor_id status s =
             ((Appointments (map appointment_json ?rows), 200), s,
              [Connect, Cursor, Execute SelectAppointments, Close])"
    using ok did by (simp add: get_appointments_def)
  have rows: "mset (map fst ?rows) =
             mset (filter (\<lambda>a. (case doctor_id of None \<Rightarrow> True
                                 | Some t \<Rightarrow> t = [] \<or> int_of_text t = Some (a_doctor_id a)) \<and>
                                (case status of None \<Rightarrow> True
                                 | Some t \<Rightarrow> t = [] \<or> a_status a = t))
                          (appointments s))"
    using select_rows [of s did "supplied status"] join_one_doctor [OF one] by (simp add: m)
  have docs: "\<forall>(a, d) \<in> set ?rows. d \<in> set (doctors s) \<and> d_id d = a_doctor_id a"
    using select_subset [of s did "supplied status"] join_pairs [of _ s] by fastforce
  show ?thesis
    using resp [unfolded view] rows docs select_ordered [of s did "supplied status"] by blast
qed

theorem list_filtered_and_ordered_witness:
  "(\<exists>rows :: (appointment \<times> doctor) list.
      get_appointments example_env (Some ''3'') None example_listing_db =
        ((Appointments
            (map (\<lambda>(a, d).
                   \<lparr>v_id = a_id a, v_patient_name = a_patient_name a,
                    v_patient_email = a_patient_email a,
                    v_patient_phone = a_patient_phone a, v_doctor_id = a_doctor_id a,
                    v_doctor_name = d_name d, v_specialization = d_specialization d,
                    v_appointment_date = date_isoformat (a_appointment_date a),
                    v_appointment_time = strftime_HM (a_appointment_time a),
                    v_reason = a_reason a, v_status = a_status a, v_notes = a_notes a,
                    v_created_at = datetime_isoformat (a_created_at a)\<rparr>) rows), 200),
         example_listing_db, [Connect, Cursor, Execute SelectAppointments, Close]) \<and>
      mset (map (a_id \<circ> fst) rows) = {#1, 3#} \<and>
      sorted_wrt (\<lambda>r r'. a_appointment_date (fst r') < a_appointment_date (fst r) \<or>
                          a_appointment_date (fst r') = a_appointment_date (fst r) \<and>
                          a_appointment_time (fst r') \<le> a_appointment_time (fst r)) rows) \<and>
   fst (get_appointments example_env (Some ''3'') None example_listing_db) =
     (Appointments
        [\<lparr>v_id = 3, v_patient_name = JStr ''Jane Doe'', v_patient_email = JStr ''jane@x.com'',
          v_patient_phone = JStr [], v_doctor_id = 3, v_doctor_name = ''Dr. Rao'',
          v_specialization = ''Cardiology'', v_appointment_date = ''2099-01-01'',
          v_appointment_time = ''15:30'', v_reason = JStr [], v_status = ''cancelled'',
          v_notes = JNull, v_created_at = ''2026-11-04T09:30:15''\<rparr>,
         \<lparr>v_id = 1, v_patient_name = JStr ''Jane Doe'', v_patient_email = JStr ''jane@x.com'',
          v_patient_phone = JStr [], v_doctor_id = 3, v_doctor_name = ''Dr. Rao'',
          v_specialization = ''Cardiology'', v_appointment_date = ''2099-01-01'',
          v_appointment_time = ''10:00'', v_reason = JStr [], v_status = ''pending'',
          v_notes = JNull, v_created_at = ''2026-11-04T09:30:15''\<rparr>], 200)"
proof -
  have 1: "\<not> faults example_env Connect" "\<not> faults example_env Cursor"
          "\<not> faults example_env (Execute SelectAppointments)" "\<not> faults example_env Close"
    by (simp_all add: example_env_def no_faults_def)
  have 2: "\<forall>a \<in> set (appointments example_listing_db).
             length (filter (\<lambda>d. d_id d = a_doctor_id a) (doctors example_listing_db)) = 1"
    by (simp add: example_listing_db_def example_appointment_def)
  have t: "int_of_text ''3'' = Some 3" by code_simp
  have 3: "\<forall>t. Some ''3'' = Some t \<longrightarrow> t \<noteq> [] \<longrightarrow> int_of_text t \<noteq> None"
    by (simp add: t)
  from list_filtered_and_ordered [OF 1 2 3, of None]
  obtain rows :: "(appointment \<times> doctor) list" where r: "get_appointments example_env (Some ''3'') None example_listing_db =
        ((Appointments
            (map (\<lambda>(a, d).
                   \<lparr>v_id = a_id a, v_patient_name = a_patient_name a,
                    v_patient_email = a_patient_email a,
                    v_patient_phone = a_patient_phone a, v_doctor_id = a_doctor_id a,
                    v_doctor_name = d_name d, v_specialization = d_specialization d,
                    v_appointment_date = date_isoformat (a_appointment_date a),
                    v_appointment_time = strftime_HM (a_appointment_time a),
                    v_reason = a_reason a, v_status = a_status a, v_notes = a_notes a,
                    v_created_at = datetime_isoformat (a_created_at a)\<rparr>) rows), 200),
         example_listing_db, [Connect, Cursor, Execute SelectAppointments, Close])"
     and m: "mset (map fst rows) =
             mset (filter (\<lambda>a. (case Some ''3'' of None \<Rightarrow> True
                                 | Some t \<Rightarrow> t = [] \<or> int_of_text t = Some (a_doctor_id a)) \<and>
                                (case None :: string option of None \<Rightarrow> True
                                 | Some t \<Rightarrow> t = [] \<or> a_status a = t))
                          (appointments example_listing_db))"
     and s: "sorted_wrt (\<lambda>r r'. a_appointment_date (fst r') < a_appointment_date (fst r) \<or>
                          a_appointment_date (fst r') = a_appointment_date (fst r) \<and>
                          a_appointment_time (fst r') \<le> a_appointment_time (fst r)) rows"
    by (elim exE conjE) (rule that; assumption)
  have "mset (map (a_id \<circ> fst) rows) = image_mset a_id (mset (map fst rows))"
    by (simp add: multiset.map_comp)
  also have "\<dots> = {#1, 3#}"
    unfolding m by (simp add: t example_listing_db_def example_appointment_def)
  finally have ids: "mset (map (a_id \<circ> fst) rows) = {#1, 3#}" .
  have concrete: "fst (get_appointments example_env (Some ''3'') None example_listing_db) =
     (Appointments
        [\<lparr>v_id = 3, v_patient_name = JStr ''Jane Doe'', v_patient_email = JStr ''jane@x.com'',
          v_patient_phone = JStr [], v_doctor_id = 3, v_doctor_name = ''Dr. Rao'',
          v_specialization = ''Cardiology'', v_appointment_date = ''2099-01-01'',
          v_appointment_time = ''15:30'', v_reason = JStr [], v_status = ''cancelled'',
          v_notes = JNull, v_created_at = ''2026-11-04T09:30:15''\<rparr>,
         \<lparr>v_id = 1, v_patient_name = JStr ''Jane Doe'', v_patient_email = JStr ''jane@x.com'',
          v_patient_phone = JStr [], v_doctor_id = 3, v_doctor_name = ''Dr. Rao'',
          v_specialization = ''Cardiology'', v_appointment_date = ''2099-01-01'',
          v_appointment_time = ''10:00'', v_reason = JStr [], v_status = ''pending'',
          v_notes = JNull, v_created_at = ''2026-11-04T09:30:15''\<rparr>], 200)"
    by code_simp
  from r ids s concrete show ?thesis by blast
qed

text \<open>
  The claim as stated fails: an appointment whose doctor is not stored is left out of
  the unfiltered listing, one whose doctor id is stored twice is listed twice, and a
  doctor filter that is no integer text, like a gateway call that raises, gives 500
  "Failed to retrieve appointments".
\<close>

theorem list_filtered_and_ordered_counterexample:
  "appointments (example_booked_db\<lparr>doctors := []\<rparr>) = [example_appointment] \<and>
   fst (get_appointments example_env None None (example_booked_db\<lparr>doctors := []\<rparr>)) =
     (Appointments [], 200) \<and>
   (case fst (fst (get_appointments example_env None None
                     (example_booked_db\<lparr>doctors := doctors example_db @ doctors example_db\<rparr>))) of
      Appointments vs \<Rightarrow> map v_id vs
    | _ \<Rightarrow> []) = [1, 1] \<and>
   fst (get_appointments example_env (Some ''abc'') None example_listing_db) =
     (Error ''Failed to retrieve appointments'', 500) \<and>
   fst (get_appointments (example_env\<lparr>faults := (\<lambda>c. c = Cursor)\<rparr>) None None example_listing_db) =
     (Error ''Failed to retrieve appointments'', 500)"
  by code_simp

section \<open>Updating\<close>

text \<open>
  C5, as amended. An update request whose body is an object and whose status is absent,
  or is anything but one of the texts pending, confirmed, completed, cancelled, is
  answered 400 "Invalid status"; the tables are unchanged and no gateway call is made.
\<close>

theorem update_invalid_status:
  assumes "\<forall>st \<in> set valid_statuses. dict_get kvs ''status'' \<noteq> Some (JStr st)"
  shows "update_appointment e appointment_id (JObj kvs) s = ((Error ''Invalid status'', 400), s, [])"
  using assms by (auto simp: update_appointment_def split: option.splits json.splits)

theorem update_invalid_status_witness:
  "update_appointment example_env 1 (JObj [(''status'', JStr ''done'')]) example_booked_db =
     ((Error ''Invalid status'', 400), example_booked_db, []) \<and>
   update_appointment example_env 1 (JObj [(''notes'', JStr ''call back'')]) example_booked_db =
     ((Error ''Invalid status'', 400), example_booked_db, [])"
proof -
  have 1: "\<forall>st \<in> set valid_statuses. dict_get [(''status'', JStr ''done'')] ''status'' \<noteq> Some (JStr st)"
    by (simp add: valid_statuses_def dict_get_def)
  have 2: "\<forall>st \<in> set valid_statuses. dict_get [(''notes'', JStr ''call back'')] ''status'' \<noteq> Some (JStr st)"
    by (simp add: valid_statuses_def dict_get_def)
  from update_invalid_status [OF 1] update_invalid_status [OF 2] show ?thesis by simp
qed

text \<open>
  The claim as stated fails on a body that is no object: it has no status, and the
  answer is 500 "Internal server error".
\<close>

theorem update_invalid_status_counterexample:
  "update_appointment example_env 1 JNull example_booked_db =
     ((Error ''Internal server error'', 500), example_booked_db, []) \<and>
   update_appointment example_env 1 (JList []) example_booked_db =
     ((Error ''Internal server error'', 500), example_booked_db, [])"
  by (simp add: update_appointment_def internal_server_error_def)

text \<open>
  C9. For an update request with a valid status and an identifier that some stored
  appointment has, with a gateway that does not raise up to the commit: every row with
  that identifier gets the new status, the supplied notes, or the empty text when the
  request has none (so the notes it had are gone), and the engine's current time as its
  updated timestamp; every other row is as before.
\<close>

theorem update_overwrites_notes:
  assumes "dict_get kvs ''status'' = Some (JStr st)" and "st \<in> set valid_statuses"
      and "list_ex (\<lambda>a. a_id a = appointment_id) (appointments s)"
      and "\<not> faults e Connect" and "\<not> faults e Cursor"
      and "\<not> faults e (Execute UpdateAppointment)" and "\<not> faults e Commit"
  shows "appointments (fst (snd (update_appointment e appointment_id (JObj kvs) s))) =
           map (\<lambda>a. if a_id a = appointment_id
                     then a\<lparr>a_status := st,
                            a_notes := (case dict_get kvs ''notes'' of None \<Rightarrow> JStr [] | Some n \<Rightarrow> n),
                            a_updated_at := current_timestamp e\<rparr>
                     else a) (appointments s)"
  using assms
  by (simp add: update_appointment_def update_storage_def update_rows_def update_row_def
                dict_get_default_def dict_get_def)

theorem update_overwrites_notes_witness:
  "appointments (fst (snd (update_appointment
       (example_env\<lparr>current_timestamp := ((2026, 11, 5), 8, 0, 0, 0)\<rparr>) 1
       (JObj [(''status'', JStr ''confirmed'')])
       (example_db\<lparr>appointments := [example_appointment\<lparr>a_notes := JStr ''bring reports''\<rparr>]\<rparr>)))) =
     [example_appointment\<lparr>a_status := ''confirmed'', a_notes := JStr [],
                          a_updated_at := ((2026, 11, 5), 8, 0, 0, 0)\<rparr>]"
proof -
  let ?e = "example_env\<lparr>current_timestamp := ((2026, 11, 5), 8, 0, 0, 0)\<rparr>"
  let ?s = "example_db\<lparr>appointments := [example_appointment\<lparr>a_notes := JStr ''bring reports''\<rparr>]\<rparr>"
  have 1: "dict_get [(''status'', JStr ''confirmed'')] ''status'' = Some (JStr ''confirmed'')"
    and 2: "''confirmed'' \<in> set valid_statuses"
    and 3: "list_ex (\<lambda>a. a_id a = 1) (appointments ?s)"
    and 4: "\<not> faults ?e Connect" and 5: "\<not> faults ?e Cursor"
    and 6: "\<not> faults ?e (Execute UpdateAppointment)" and 7: "\<not> faults ?e Commit"
    by (simp_all add: dict_get_def valid_statuses_def example_env_def example_db_def
                      example_appointment_def no_faults_def)
  from update_overwrites_notes [OF 1 2 3 4 5 6 7]
  show ?thesis by (simp add: dict_get_def example_db_def example_appointment_def)
qed

section \<open>The chat relay\<close>

lemma save_chat_response_free:
  "fst (chat (e\<lparr>faults := f\<rparr>) data s) = fst (chat e data s)"
  by (simp add: chat_def split: json.splits generated.splits)

text \<open>
  C7, as amended. Which gateway calls raise never changes the response of Converse: when
  the model answers, the response is 200 with the bot response (the fallback text for an
  empty or absent answer), the session identifier and the timestamp, whether or not the
  turn could be stored. For a body that is an object whose message is a text or absent,
  "Failed to process your message. Please try again." with 500 is the answer exactly
  when generating the message raises.
\<close>

theorem chat_persistence_non_fatal:
  "fst (chat (e\<lparr>faults := f\<rparr>) data s) = fst (chat e data s) \<and>
   (\<forall>kvs m txt. data = JObj kvs \<longrightarrow> dict_get_default kvs ''message'' (JStr []) = JStr m \<longrightarrow>
        strip m \<noteq> [] \<longrightarrow> generate_content e (strip m) = Generated txt \<longrightarrow>
        fst (chat (e\<lparr>faults := f\<rparr>) data s) =
          (ChatReply (case txt of None \<Rightarrow> fallback_response
                      | Some r \<Rightarrow> if r = [] then fallback_response else r)
                     (dict_get_default kvs ''session_id'' (JStr (uuid4 e))) ''now'', 200)) \<and>
   (\<forall>kvs m. data = JObj kvs \<longrightarrow> dict_get_default kvs ''message'' (JStr []) = JStr m \<longrightarrow>
        (fst (chat (e\<lparr>faults := f\<rparr>) data s) = chat_failed \<longleftrightarrow>
           strip m \<noteq> [] \<and> generate_content e (strip m) = GenerateRaises))"
proof (intro conjI allI impI)
  show "fst (chat (e\<lparr>faults := f\<rparr>) data s) = fst (chat e data s)"
    by (rule save_chat_response_free)
next
  fix kvs m answer
  assume "data = JObj kvs" "dict_get_default kvs ''message'' (JStr []) = JStr m"
         "strip m \<noteq> []" "generate_content e (strip m) = Generated answer"
  then show "fst (chat (e\<lparr>faults := f\<rparr>) data s) =
          (ChatReply (case answer of None \<Rightarrow> fallback_response
                      | Some r \<Rightarrow> if r = [] then fallback_response else r)
                     (dict_get_default kvs ''session_id'' (JStr (uuid4 e))) ''now'', 200)"
    by (simp add: chat_def)
next
  fix kvs m
  assume "data = JObj kvs" "dict_get_default kvs ''message'' (JStr []) = JStr m"
  then show "fst (chat (e\<lparr>faults := f\<rparr>) data s) = chat_failed \<longleftrightarrow>
           strip m \<noteq> [] \<and> generate_content e (strip m) = GenerateRaises"
    by (auto simp: chat_def chat_failed_def split: generated.splits)
qed

theorem chat_persistence_non_fatal_witness:
  "fst (chat (example_env\<lparr>faults := (\<lambda>c. True)\<rparr>) example_chat example_db) =
     (ChatReply ''Rest and drink water.'' (JStr ''s-42'') ''now'', 200)"
proof -
  have 1: "example_chat = JObj [(''message'', JStr ''I have a headache''), (''session_id'', JStr ''s-42'')]"
    by (simp add: example_chat_def)
  have 2: "dict_get_default [(''message'', JStr ''I have a headache''), (''session_id'', JStr ''s-42'')]
             ''message'' (JStr []) = JStr ''I have a headache''"
    and 3: "strip ''I have a headache'' \<noteq> []"
    and 4: "generate_content example_env (strip ''I have a headache'') = Generated (Some ''Rest and drink water.'')"
    and 5: "dict_get_default [(''message'', JStr ''I have a headache''), (''session_id'', JStr ''s-42'')]
             ''session_id'' (JStr (uuid4 example_env)) = JStr ''s-42''"
    by code_simp+
  note reply = chat_persistence_non_fatal
    [where e = example_env and f = "\<lambda>c. True" and data = example_chat and s = example_db,
     THEN conjunct2, THEN conjunct1, rule_format, OF 1 2 3 4]
  then show ?thesis by (simp add: 5)
qed

text \<open>
  The claim as stated fails on a message that is no text: the model is never called,
  and would not have raised, yet the answer is the 500.
\<close>

theorem chat_persistence_non_fatal_counterexample:
  "(\<forall>m. generate_content example_env m \<noteq> GenerateRaises) \<and>
   chat example_env (JObj [(''message'', JInt 5)]) example_db =
     ((Error ''Failed to process your message. Please try again.'', 500), example_db, [])"
  by (simp add: example_env_def chat_def chat_failed_def dict_get_default_def)

text \<open>
  C10. Every response of Converse with status 200 carries the timestamp "now".
\<close>

theorem chat_timestamp_now:
  assumes "snd (fst (chat e data s)) = 200"
  shows "\<exists>r sid. fst (fst (chat e data s)) = ChatReply r sid ''now''"
  using assms by (auto simp: chat_def chat_failed_def split: json.splits generated.splits if_splits)

theorem chat_timestamp_now_witness:
  "\<exists>r sid. fst (fst (chat example_env example_chat example_db)) = ChatReply r sid ''now''"
proof -
  have "snd (fst (chat example_env example_chat example_db)) = 200" by code_simp
  then show ?thesis by (rule chat_timestamp_now)
qed

section \<open>Release of the connection\<close>

text \<open>
  Booking and updating close the connection in a \<^verbatim>\<open>finally\<close>: no run of theirs
  leaves one open.
\<close>

lemma book_closes_connection:
  "\<not> leaves_connection_open e (snd (snd (book_appointment e data s)))"
  by (simp add: leaves_connection_open_def book_appointment_def book_storage_def book_failed_def
                db_failure_def split: sum.splits option.splits)

lemma update_closes_connection:
  "\<not> leaves_connection_open e (snd (snd (update_appointment e appointment_id data s)))"
  by (simp add: leaves_connection_open_def update_appointment_def update_storage_def
                update_failed_def db_failure_def split: json.splits option.splits)

text \<open>
  The other three handlers close the connection in the statement after the \<^verbatim>\<open>with\<close>
  block, which a raising cursor, statement or commit skips.
\<close>

lemma list_error_path:
  assumes "\<not> faults e Connect"
      and "faults e Cursor \<or> faults e (Execute SelectAppointments) \<or>
           (\<exists>t. supplied doctor_id = Some t \<and> int_of_text t = None)"
  shows "fst (get_appointments e doctor_id status s) = list_failed \<and>
         leaves_connection_open e (snd (snd (get_appointments e doctor_id status s)))"
  using assms
  by (auto simp: get_appointments_def leaves_connection_open_def split: option.splits)

lemma save_chat_error_path:
  assumes "\<not> faults e Connect"
      and "faults e Cursor \<or> faults e (Execute InsertChat) \<or> faults e Commit"
  shows "leaves_connection_open e (snd (save_chat e session_id user_message bot_response s))"
  using assms by (auto simp: save_chat_def leaves_connection_open_def)

lemma history_error_path:
  assumes "\<not> faults e Connect" and "faults e Cursor \<or> faults e (Execute SelectHistory)"
  shows "fst (get_chat_history e session_id s) = history_failed \<and>
         leaves_connection_open e (snd (snd (get_chat_history e session_id s)))"
  using assms by (auto simp: get_chat_history_def leaves_connection_open_def)

text \<open>
  C4, at a failing input. The claim is that every operation that acquires a connection
  closes it on every exit path. A listing filtered by the doctor id \<^verbatim>\<open>abc\<close>
  acquires the connection, the statement raises on the text that is no integer, and
  the handler answers 500 "Failed to retrieve appointments" without a call of close.
\<close>

theorem list_error_leaves_connection_open:
  "get_appointments example_env (Some ''abc'') None example_db =
     ((Error ''Failed to retrieve appointments'', 500), example_db,
      [Connect, Cursor, Execute SelectAppointments]) \<and>
   leaves_connection_open example_env [Connect, Cursor, Execute SelectAppointments]"
  by code_simp

end
